theory Spec2Isabelle
  imports Complex_Main "HOL-Library.Stream"
begin

section \<open>Machine integers and formatting\<close>

text \<open>
  Go's \<open>int\<close> and \<open>time.Duration\<close> are 64-bit two's complement integers. They are
  modelled as \<open>int\<close>, with the wrap-around written out by \<open>wrap64\<close> wherever the
  program does arithmetic on values that are not bounded by construction.
\<close>

definition wrap64 :: "int \<Rightarrow> int" where
  "wrap64 x = (x + 9223372036854775808) mod 18446744073709551616 - 9223372036854775808"

type_synonym Duration = int

text \<open>\<open>time.Second\<close>, in nanoseconds.\<close>

definition Second :: Duration where
  "Second = 1000000000"

text \<open>Go's \<open>%\<close> truncates towards zero; a zero divisor panics and is checked by the caller.\<close>

definition go_rem :: "int \<Rightarrow> int \<Rightarrow> int" where
  "go_rem a b = a - b * (sgn a * sgn b * (\<bar>a\<bar> div \<bar>b\<bar>))"

text \<open>The verb \<open>%d\<close> of \<open>fmt.Sprintf\<close>: decimal digits, with a minus sign when negative.\<close>

fun utoa :: "nat \<Rightarrow> string" where
  "utoa n = (if n < 10 then [''0123456789'' ! n]
             else utoa (n div 10) @ [''0123456789'' ! (n mod 10)])"

definition itoa :: "int \<Rightarrow> string" where
  "itoa i = (if i < 0 then CHR ''-'' # utoa (nat (- i)) else utoa (nat i))"

section \<open>The random source\<close>

text \<open>
  \<open>math/rand\<close> is a process-global generator. It is modelled as a stream of raw draws
  that every call consumes from the front: \<open>rand.Intn(n)\<close> returns a value of
  \<open>[0, n)\<close> (every such value is the result for some raw draw), \<open>rand.Int()\<close> a
  non-negative 63-bit value. \<open>rand.Intn\<close> panics for \<open>n \<le> 0\<close>; the program only
  calls it with positive constants.
\<close>

type_synonym rng = "nat stream"

definition Intn :: "nat \<Rightarrow> rng \<Rightarrow> int \<times> rng" where
  "Intn n r = (int (shd r mod n), stl r)"

definition Int_rand :: "rng \<Rightarrow> int \<times> rng" where
  "Int_rand r = (int (shd r mod 9223372036854775808), stl r)"

section \<open>Questions\<close>

record Question =
  Text :: string
  Answer :: int
  OpType :: string
  UniqueID :: string

text \<open>
  The local variables of one iteration of the loop of \<open>generateQuestion\<close>
  (\<open>a\<close>, \<open>b\<close>, \<open>answer\<close>, \<open>text\<close>, \<open>op\<close>, \<open>opType\<close>), which start at their zero values.
\<close>

record locals =
  l_a :: int
  l_b :: int
  l_answer :: int
  l_text :: string
  l_op :: string
  l_opType :: string

definition zero_locals :: locals where
  "zero_locals = \<lparr>l_a = 0, l_b = 0, l_answer = 0, l_text = [], l_op = [], l_opType = []\<rparr>"

text \<open>\<open>fmt.Sprintf("%d %s %d = ?", a, op, b)\<close>\<close>

definition arith_text :: "int \<Rightarrow> string \<Rightarrow> int \<Rightarrow> string" where
  "arith_text a op b = itoa a @ '' '' @ op @ '' '' @ itoa b @ '' = ?''"

text \<open>Indexing a map literal with a key: the value, or the empty string when absent.\<close>

definition map_index :: "(string \<times> string) list \<Rightarrow> string \<Rightarrow> string" where
  "map_index kvs k = (case map_of kvs k of Some v \<Rightarrow> v | None \<Rightarrow> [])"

text \<open>The division sign U+00F7 of the algebra division template, in UTF-8.\<close>

definition div_sign :: string where
  "div_sign = [char_of (0xC3 :: nat), char_of (0xB7 :: nat)]"

definition gen_1st :: "rng \<Rightarrow> locals \<times> rng" where
  "gen_1st r0 =
     (let (a, r1) = Intn 11 r0; (b, r2) = Intn 11 r1; (c, r3) = Intn 2 r2 in
      if c = 0 then
        (\<lparr>l_a = a, l_b = b, l_answer = a + b, l_text = arith_text a ''+'' b, l_op = ''+'',
          l_opType = map_index [(''+'', ''addition''), (''-'', ''subtraction'')] ''+''\<rparr>, r3)
      else
        (let (a', b') = (if a < b then (b, a) else (a, b)) in
         (\<lparr>l_a = a', l_b = b', l_answer = a' - b', l_text = arith_text a' ''-'' b', l_op = ''-'',
           l_opType = map_index [(''+'', ''addition''), (''-'', ''subtraction'')] ''-''\<rparr>, r3)))"

definition gen_3rd :: "rng \<Rightarrow> locals \<times> rng" where
  "gen_3rd r0 =
     (let (a, r1) = Intn 21 r0; (b, r2) = Intn 21 r1; (i, r3) = Intn 3 r2;
          op = [''+'', ''-'', ''*''] ! nat i;
          names = [(''+'', ''addition''), (''-'', ''subtraction''), (''*'', ''multiplication'')] in
      if op = ''+'' then
        (\<lparr>l_a = a, l_b = b, l_answer = a + b, l_text = arith_text a op b, l_op = op,
          l_opType = map_index names op\<rparr>, r3)
      else if op = ''-'' then
        (\<lparr>l_a = a, l_b = b, l_answer = a - b, l_text = arith_text a op b, l_op = op,
          l_opType = map_index names op\<rparr>, r3)
      else if op = ''*'' then
        (let (a', r4) = Intn 10 r3; (b', r5) = Intn 10 r4 in
         (\<lparr>l_a = a', l_b = b', l_answer = a' * b', l_text = arith_text a' op b', l_op = op,
           l_opType = map_index names op\<rparr>, r5))
      else
        (\<lparr>l_a = a, l_b = b, l_answer = 0, l_text = arith_text a op b, l_op = op,
          l_opType = map_index names op\<rparr>, r3))"

definition gen_5th :: "rng \<Rightarrow> locals \<times> rng" where
  "gen_5th r0 =
     (let (i, r1) = Intn 4 r0;
          op = [''+'', ''-'', ''*'', ''/''] ! nat i;
          names = [(''+'', ''addition''), (''-'', ''subtraction''),
                   (''*'', ''multiplication''), (''/'', ''division'')] in
      if op = ''+'' then
        (let (x, r2) = Intn 90 r1; (y, r3) = Intn 90 r2; a = x + 10; b = y + 10 in
         (\<lparr>l_a = a, l_b = b, l_answer = a + b, l_text = arith_text a op b, l_op = op,
           l_opType = map_index names op\<rparr>, r3))
      else if op = ''-'' then
        (let (x, r2) = Intn 90 r1; (y, r3) = Intn 90 r2; a = x + 10; b = y + 10 in
         (\<lparr>l_a = a, l_b = b, l_answer = a - b, l_text = arith_text a op b, l_op = op,
           l_opType = map_index names op\<rparr>, r3))
      else if op = ''*'' then
        (let (x, r2) = Intn 15 r1; (y, r3) = Intn 15 r2; a = x + 1; b = y + 1 in
         (\<lparr>l_a = a, l_b = b, l_answer = a * b, l_text = arith_text a op b, l_op = op,
           l_opType = map_index names op\<rparr>, r3))
      else if op = ''/'' then
        (let (x, r2) = Intn 15 r1; b = x + 1; (y, r3) = Intn 20 r2; answer = y + 1;
             a = b * answer in
         (\<lparr>l_a = a, l_b = b, l_answer = answer, l_text = arith_text a op b, l_op = op,
           l_opType = map_index names op\<rparr>, r3))
      else
        (\<lparr>l_a = 0, l_b = 0, l_answer = 0, l_text = arith_text 0 op 0, l_op = op,
          l_opType = map_index names op\<rparr>, r1))"

text \<open>
  The algebra templates leave \<open>a\<close>, \<open>b\<close> and \<open>op\<close> at their zero values. \<open>x\<close> and \<open>n\<close>
  are the template's own locals.
\<close>

definition gen_algebra :: "rng \<Rightarrow> locals \<times> rng" where
  "gen_algebra r0 =
     (let (format, r1) = Intn 7 r0 in
      if format = 0 then
        (let (x0, r2) = Intn 41 r1; x = x0 - 20; (n0, r3) = Intn 10 r2; n = n0 + 1 in
         (zero_locals\<lparr>l_text := ''x + '' @ itoa n @ '' = '' @ itoa (x + n) @ ''. What is x?'',
            l_answer := x, l_opType := ''algebra_addition''\<rparr>, r3))
      else if format = 1 then
        (let (x0, r2) = Intn 41 r1; x = x0 - 20; (n0, r3) = Intn 5 r2; n = n0 + 1 in
         (zero_locals\<lparr>l_text := ''x - '' @ itoa n @ '' = '' @ itoa (x - n) @ ''. What is x?'',
            l_answer := x, l_opType := ''algebra_subtraction''\<rparr>, r3))
      else if format = 2 then
        (let (x0, r2) = Intn 41 r1; x = x0 - 20; (n0, r3) = Intn 10 r2; n = n0 + 1 in
         (zero_locals\<lparr>l_text := itoa n @ '' + x = '' @ itoa (x + n) @ ''. What is x?'',
            l_answer := x, l_opType := ''algebra_addition''\<rparr>, r3))
      else if format = 3 then
        (let (x0, r2) = Intn 41 r1; x = x0 - 20; (n0, r3) = Intn 10 r2; n = n0 + x in
         (zero_locals\<lparr>l_text := itoa n @ '' - x = '' @ itoa (n - x) @ ''. What is x?'',
            l_answer := x, l_opType := ''algebra_subtraction''\<rparr>, r3))
      else if format = 4 then
        (let (x0, r2) = Intn 41 r1; x = x0 - 20; (n0, r3) = Intn 6 r2; n = n0 + 1 in
         (zero_locals\<lparr>l_text := ''x * '' @ itoa n @ '' = '' @ itoa (x * n) @ ''. What is x?'',
            l_answer := x, l_opType := ''algebra_multiplication''\<rparr>, r3))
      else if format = 5 then
        (let (n0, r2) = Intn 5 r1; n = n0 + 1; (m0, r3) = Intn 21 r2;
             m = (if m0 - 10 = 0 then 1 else m0 - 10) in
         (zero_locals\<lparr>l_text := ''x '' @ div_sign @ '' '' @ itoa n @ '' = '' @ itoa m @ ''. What is x?'',
            l_answer := n * m, l_opType := ''algebra_division''\<rparr>, r3))
      else if format = 6 then
        (let (x0, r2) = Intn 41 r1; x = x0 - 20; (n0, r3) = Intn 6 r2; n = n0 + 1 in
         (zero_locals\<lparr>l_text := itoa n @ '' * x = '' @ itoa (x * n) @ ''. What is x?'',
            l_answer := x, l_opType := ''algebra_multiplication''\<rparr>, r3))
      else (zero_locals, r1))"

definition gen_default :: "rng \<Rightarrow> locals \<times> rng" where
  "gen_default r0 =
     (let (a, r1) = Intn 11 r0; (b, r2) = Intn 11 r1 in
      (\<lparr>l_a = a, l_b = b, l_answer = a + b, l_text = arith_text a ''+'' b, l_op = ''+'',
        l_opType = ''addition''\<rparr>, r2))"

text \<open>The \<open>switch difficulty\<close> of the loop body.\<close>

definition gen_locals :: "string \<Rightarrow> rng \<Rightarrow> locals \<times> rng" where
  "gen_locals difficulty r =
     (if difficulty = ''1st Grade'' then gen_1st r
      else if difficulty = ''3rd Grade'' then gen_3rd r
      else if difficulty = ''5th Grade'' then gen_5th r
      else if difficulty = ''Algebra'' then gen_algebra r
      else gen_default r)"

text \<open>
  One iteration up to the test of the id: the locals, the id
  \<open>fmt.Sprintf("%s|%d", difficulty, rand.Int())\<close> and the random source left over.
\<close>

definition attempt :: "string \<Rightarrow> rng \<Rightarrow> locals \<times> string \<times> rng" where
  "attempt difficulty r =
     (let (l, r1) = gen_locals difficulty r; (n, r2) = Int_rand r1 in
      (l, difficulty @ ''|'' @ itoa n, r2))"

definition mkQuestion :: "locals \<Rightarrow> string \<Rightarrow> Question" where
  "mkQuestion l uid = \<lparr>Text = l_text l, Answer = l_answer l, OpType = l_opType l, UniqueID = uid\<rparr>"

text \<open>
  \<open>generateQuestion\<close>: the loop retries while the id is in \<open>used\<close>, and has no bound, so the
  function is partial: \<open>None\<close> is the loop running forever. The map \<open>used\<close> is mutated in
  place in the source; here the updated set is returned, with the random source.
\<close>

partial_function (option) generateQuestion ::
  "string \<Rightarrow> string set \<Rightarrow> rng \<Rightarrow> (Question \<times> string set \<times> rng) option" where
  "generateQuestion difficulty used r =
     (case attempt difficulty r of
        (l, uid, r') \<Rightarrow>
          if uid \<in> used then generateQuestion difficulty used r'
          else Some (mkQuestion l uid, insert uid used, r'))"

text \<open>The random source after \<open>k\<close> iterations of the loop, and the id the next one draws.\<close>

fun rng_after :: "string \<Rightarrow> nat \<Rightarrow> rng \<Rightarrow> rng" where
  "rng_after d 0 r = r"
| "rng_after d (Suc k) r = rng_after d k (snd (snd (attempt d r)))"

definition id_drawn :: "string \<Rightarrow> nat \<Rightarrow> rng \<Rightarrow> string" where
  "id_drawn d k r = fst (snd (attempt d (rng_after d k r)))"

section \<open>The widgets and the runtime\<close>

text \<open>
  The list widget, the text input and the event loop belong to libraries. The model keeps
  of a widget what the program reads and writes (the selected item; the typed value and the
  focus), and takes the widgets' own \<open>Update\<close>, the scanner \<open>fmt.Sscanf(_, "%d", _)\<close> and
  the clock as parameters (\<open>env\<close>), so that nothing is assumed of them.
\<close>

record difficultyItem =
  name :: string
  desc :: string

record list_Model =
  Title :: string
  items :: "difficultyItem list"
  index :: nat

definition list_New :: "difficultyItem list \<Rightarrow> list_Model" where
  "list_New its = \<lparr>Title = [], items = its, index = 0\<rparr>"

definition SelectedItem :: "list_Model \<Rightarrow> difficultyItem option" where
  "SelectedItem l = (if index l < length (items l) then Some (items l ! index l) else None)"

definition Select :: "nat \<Rightarrow> list_Model \<Rightarrow> list_Model" where
  "Select i l = l\<lparr>index := i\<rparr>"

record textinput_Model =
  Placeholder :: string
  CharLimit :: int
  Width :: int
  Value :: string
  focus :: bool

definition textinput_New :: textinput_Model where
  "textinput_New = \<lparr>Placeholder = [], CharLimit = 0, Width = 0, Value = [], focus = False\<rparr>"

definition Reset :: "textinput_Model \<Rightarrow> textinput_Model" where
  "Reset t = t\<lparr>Value := []\<rparr>"

definition Focus :: "textinput_Model \<Rightarrow> textinput_Model" where
  "Focus t = t\<lparr>focus := True\<rparr>"

definition Blur :: "textinput_Model \<Rightarrow> textinput_Model" where
  "Blur t = t\<lparr>focus := False\<rparr>"

datatype KeyType = KeyEnter | KeyCtrlC | KeyLeft | KeyRunes | KeyOther

text \<open>A key event: its \<open>Type\<close> and the value of its \<open>String()\<close>.\<close>

record Key =
  keyType :: KeyType
  keyString :: string

datatype Msg =
    tickMsg int
  | fuseTickMsg
  | pulseTickMsg
  | flashDoneMsg
  | flashFadeMsg
  | KeyMsg Key
  | otherMsg nat

datatype Cmd =
    nil_cmd
  | Quit
  | tick
  | fuseTick
  | pulseTick
  | flashTimeout
  | flashFadeTick
  | Batch "Cmd list"
  | widget_cmd nat

record env =
  list_Update :: "Msg \<Rightarrow> list_Model \<Rightarrow> list_Model \<times> Cmd"
  textinput_Update :: "Msg \<Rightarrow> textinput_Model \<Rightarrow> textinput_Model \<times> Cmd"
  Sscanf_d :: "string \<Rightarrow> int option"
  Now :: int
  Since :: "int \<Rightarrow> Duration"

section \<open>The session\<close>

type_synonym appState = int

abbreviation (input) stateMenu :: appState where "stateMenu \<equiv> 0"
abbreviation (input) stateTimeSelect :: appState where "stateTimeSelect \<equiv> 1"
abbreviation (input) stateRunning :: appState where "stateRunning \<equiv> 2"
abbreviation (input) stateResults :: appState where "stateResults \<equiv> 3"

record AnswerRecord =
  Question :: Question
  Correct :: bool
  Duration :: Duration
  UserInput :: string

record model =
  state :: appState
  difficulty :: string
  timeLimit :: int
  list :: list_Model
  timeList :: list_Model
  textInput :: textinput_Model
  currentQ :: Question
  usedQuestions :: "string set"
  answers :: "AnswerRecord list"
  startTime :: int
  totalStart :: int
  questionStart :: int
  timeRemaining :: Duration
  timerActive :: bool
  suspendTick :: bool
  flashText :: string
  flashColor :: string
  flashActive :: bool
  flashBarAdjust :: int
  flashFadeSteps :: int
  flashColorOverride :: string
  fuseFrameIndex :: int
  fuseFrames :: "string list"

text \<open>The fuse glyphs U+2728, U+00B7 and U+2736, in UTF-8.\<close>

definition glyph_sparkles :: string where
  "glyph_sparkles = [char_of (0xE2 :: nat), char_of (0x9C :: nat), char_of (0xA8 :: nat)]"

definition glyph_middot :: string where
  "glyph_middot = [char_of (0xC2 :: nat), char_of (0xB7 :: nat)]"

definition glyph_star :: string where
  "glyph_star = [char_of (0xE2 :: nat), char_of (0x9C :: nat), char_of (0xB6 :: nat)]"

definition diffItems :: "difficultyItem list" where
  "diffItems =
     [\<lparr>name = ''1st Grade'', desc = ''Basic single-digit addition and subtraction''\<rparr>,
      \<lparr>name = ''3rd Grade'', desc = ''Larger numbers and simple multiplication''\<rparr>,
      \<lparr>name = ''5th Grade'', desc = ''Two-digit operations''\<rparr>,
      \<lparr>name = ''Algebra'', desc = ''Variables and expressions''\<rparr>]"

definition timeItems :: "difficultyItem list" where
  "timeItems =
     [\<lparr>name = ''30s'', desc = ''Brain Storm''\<rparr>,
      \<lparr>name = ''60s'', desc = ''Normal Person''\<rparr>,
      \<lparr>name = ''90s'', desc = ''Ok, Boomer''\<rparr>,
      \<lparr>name = ''2m'', desc = ''Marathon''\<rparr>]"

definition zero_Question :: Question where
  "zero_Question = \<lparr>Text = [], Answer = 0, OpType = [], UniqueID = []\<rparr>"

definition initialModel :: model where
  "initialModel =
     \<lparr>state = stateMenu, difficulty = [], timeLimit = 0,
      list = (list_New diffItems)\<lparr>Title := ''Select Difficulty Level''\<rparr>,
      timeList = (list_New timeItems)\<lparr>Title := ''Select Quiz Duration''\<rparr>,
      textInput = Focus (textinput_New\<lparr>Placeholder := ''Your answer''\<rparr>)\<lparr>CharLimit := 5, Width := 20\<rparr>,
      currentQ = zero_Question, usedQuestions = {}, answers = [],
      startTime = 0, totalStart = 0, questionStart = 0, timeRemaining = 0,
      timerActive = False, suspendTick = False,
      flashText = [], flashColor = [], flashActive = False, flashBarAdjust = 0,
      flashFadeSteps = 0, flashColorOverride = [],
      fuseFrameIndex = 0, fuseFrames = [''*'', glyph_sparkles, glyph_middot, glyph_star]\<rparr>"

text \<open>
  What one call of \<open>Update\<close> leaves behind: the new model, the command, the random source
  and what was printed. A run-time panic is \<open>Panic\<close>; a call that never returns (the loop of
  \<open>generateQuestion\<close>) is \<open>None\<close>.
\<close>

record outcome =
  next_model :: model
  cmd :: Cmd
  rand :: rng
  printed :: string

datatype result = Done outcome | Panic

definition ret :: "model \<Rightarrow> Cmd \<Rightarrow> rng \<Rightarrow> result option" where
  "ret m c r = Some (Done \<lparr>next_model = m, cmd = c, rand = r, printed = []\<rparr>)"

text \<open>\<open>time.Duration(m.timeLimit) * time.Second\<close>\<close>

definition limit_duration :: "model \<Rightarrow> Duration" where
  "limit_duration m = wrap64 (timeLimit m * Second)"

definition Update_Menu :: "env \<Rightarrow> rng \<Rightarrow> Msg \<Rightarrow> model \<Rightarrow> result option" where
  "Update_Menu e r msg m0 =
     (let (l', c) = list_Update e msg (list m0); m = m0\<lparr>list := l'\<rparr> in
      case msg of
        KeyMsg k \<Rightarrow>
          if keyType k = KeyEnter then
            (case SelectedItem (list m) of
               Some selected \<Rightarrow> ret (m\<lparr>difficulty := name selected, state := stateTimeSelect\<rparr>) c r
             | None \<Rightarrow> ret m c r)
          else if keyType k = KeyCtrlC \<or> keyString k = ''q'' then ret m Quit r
          else ret m c r
      | _ \<Rightarrow> ret m c r)"

definition set_timeLimit :: "string \<Rightarrow> model \<Rightarrow> model" where
  "set_timeLimit nm m =
     (if nm = ''30s'' then m\<lparr>timeLimit := 30\<rparr>
      else if nm = ''60s'' then m\<lparr>timeLimit := 60\<rparr>
      else if nm = ''90s'' then m\<lparr>timeLimit := 90\<rparr>
      else if nm = ''2m'' then m\<lparr>timeLimit := 120\<rparr>
      else m)"

definition Update_TimeSelect :: "env \<Rightarrow> rng \<Rightarrow> Msg \<Rightarrow> model \<Rightarrow> result option" where
  "Update_TimeSelect e r msg m0 =
     (let (l', c) = list_Update e msg (timeList m0); m = m0\<lparr>timeList := l'\<rparr> in
      case msg of
        KeyMsg k \<Rightarrow>
          if keyString k = ''enter'' then
            (case SelectedItem (timeList m) of
               Some selected \<Rightarrow>
                 (let m1 = set_timeLimit (name selected) m in
                  case generateQuestion (difficulty m1) (usedQuestions m1) r of
                    None \<Rightarrow> None
                  | Some (q, used', r') \<Rightarrow>
                      (let m2 = m1\<lparr>currentQ := q, usedQuestions := used'\<rparr>;
                           m3 = m2\<lparr>totalStart := Now e, questionStart := Now e\<rparr>;
                           m4 = m3\<lparr>timeRemaining := limit_duration m3\<rparr>;
                           m5 = m4\<lparr>state := stateRunning, startTime := Now e\<rparr>
                       in ret m5 (Batch [tick, fuseTick, pulseTick]) r'))
             | None \<Rightarrow> ret m c r)
          else if keyString k = ''left'' then ret (m\<lparr>state := stateMenu\<rparr>) c r
          else if keyString k = ''q'' then ret m Quit r
          else ret m c r
      | _ \<Rightarrow> ret m c r)"

text \<open>
  The scoring of a parsed answer: the record appended to the history, the feedback, the
  time adjustment with its clamp, and the flash armed.
\<close>

definition score :: "env \<Rightarrow> string \<Rightarrow> int \<Rightarrow> model \<Rightarrow> model" where
  "score e userInput userAns m0 =
     (let correct = (userAns = Answer (currentQ m0));
          m1 = m0\<lparr>answers := answers m0 @
                 [\<lparr>Question = currentQ m0, Correct = correct,
                   Duration = Since e (questionStart m0), UserInput = userInput\<rparr>]\<rparr>;
          m2 = (if correct then
                  (let m = m1\<lparr>flashText := ''Correct!'', flashColor := ''green'',
                              flashBarAdjust := 1, flashColorOverride := ''brightGreen'',
                              timeRemaining := wrap64 (timeRemaining m1 + Second)\<rparr>
                   in if timeRemaining m > limit_duration m
                      then m\<lparr>timeRemaining := limit_duration m\<rparr> else m)
                else
                  (let m = m1\<lparr>flashText := ''Incorrect!'', flashColor := ''red'',
                              flashBarAdjust := - 1, flashColorOverride := ''brightRed'',
                              timeRemaining := wrap64 (timeRemaining m1 - Second)\<rparr>
                   in if timeRemaining m < Second
                      then m\<lparr>timeRemaining := Second\<rparr> else m));
          m3 = m2\<lparr>flashFadeSteps := 3, suspendTick := True, flashActive := True\<rparr>
      in m3\<lparr>textInput := Blur (textInput m3)\<rparr>)"

text \<open>The bell character that \<open>fmt.Print("\a")\<close> writes.\<close>

definition bell :: string where
  "bell = [char_of (7 :: nat)]"

text \<open>
  The second part of the Running case: the text input sees the message, then the flash and
  key events are handled. \<open>cmds\<close> is what the first part has collected.
\<close>

definition Running_events :: "env \<Rightarrow> rng \<Rightarrow> Msg \<Rightarrow> Cmd list \<Rightarrow> model \<Rightarrow> result option" where
  "Running_events e r msg cmds0 m0 =
     (let (ti, c) = textinput_Update e msg (textInput m0);
          m = m0\<lparr>textInput := ti\<rparr>;
          cmds = cmds0 @ [c] in
      case msg of
        flashDoneMsg \<Rightarrow>
          (let m1 = m\<lparr>flashActive := False, flashColorOverride := [], flashBarAdjust := 0\<rparr>;
               m2 = m1\<lparr>textInput := Focus (Reset (textInput m1))\<rparr> in
           case generateQuestion (difficulty m2) (usedQuestions m2) r of
             None \<Rightarrow> None
           | Some (q, used', r') \<Rightarrow>
               ret (m2\<lparr>currentQ := q, usedQuestions := used', suspendTick := False,
                       questionStart := Now e\<rparr>) (Batch cmds) r')
      | flashFadeMsg \<Rightarrow>
          if flashFadeSteps m > 0 then
            (let m1 = m\<lparr>flashFadeSteps := flashFadeSteps m - 1\<rparr> in
             if flashFadeSteps m1 = 0 then ret (m1\<lparr>flashColorOverride := []\<rparr>) (Batch cmds) r
             else ret m1 flashFadeTick r)
          else ret m (Batch cmds) r
      | KeyMsg k \<Rightarrow>
          if keyString k = ''enter'' then
            (let userInput = Value (textInput m) in
             case Sscanf_d e userInput of
               Some userAns \<Rightarrow> ret (score e userInput userAns m) (Batch [flashTimeout, flashFadeTick]) r
             | None \<Rightarrow> ret m (Batch cmds) r)
          else if keyString k = ''q'' then
            ret (m\<lparr>state := stateMenu, list := Select 0 (list m), timeList := Select 0 (timeList m),
                   textInput := Reset (textInput m), usedQuestions := {}, answers := []\<rparr>) nil_cmd r
          else ret m (Batch cmds) r
      | _ \<Rightarrow> ret m (Batch cmds) r)"

definition Update_Running :: "env \<Rightarrow> rng \<Rightarrow> Msg \<Rightarrow> model \<Rightarrow> result option" where
  "Update_Running e r msg m =
     (case msg of
        tickMsg t \<Rightarrow>
          (let m1 = (if \<not> suspendTick m then m\<lparr>timeRemaining := wrap64 (timeRemaining m - Second)\<rparr>
                     else m) in
           if timeRemaining m1 \<le> 0 then
             Some (Done \<lparr>next_model = m1\<lparr>state := stateResults\<rparr>, cmd = nil_cmd, rand = r,
                          printed = bell\<rparr>)
           else Running_events e r msg [tick] m1)
      | fuseTickMsg \<Rightarrow>
          if fuseFrames m = [] then Some Panic
          else ret (m\<lparr>fuseFrameIndex :=
                        go_rem (wrap64 (fuseFrameIndex m + 1)) (int (length (fuseFrames m)))\<rparr>)
                 fuseTick r
      | pulseTickMsg \<Rightarrow>
          if timeRemaining m \<le> 10 * Second then
            (let m1 = m\<lparr>flashFadeSteps := 1\<rparr> in
             if flashColorOverride m1 = [] then ret (m1\<lparr>flashColorOverride := ''brightRed''\<rparr>) pulseTick r
             else ret (m1\<lparr>flashColorOverride := []\<rparr>) pulseTick r)
          else ret m pulseTick r
      | _ \<Rightarrow> Running_events e r msg [] m)"

definition Update_Results :: "env \<Rightarrow> rng \<Rightarrow> Msg \<Rightarrow> model \<Rightarrow> result option" where
  "Update_Results e r msg m =
     (case msg of
        KeyMsg k \<Rightarrow>
          if keyString k = ''left'' then
            ret (m\<lparr>state := stateMenu, list := Select 0 (list m), timeList := Select 0 (timeList m),
                   textInput := Reset (textInput m), answers := [], usedQuestions := {}\<rparr>) nil_cmd r
          else ret m nil_cmd r
      | _ \<Rightarrow> ret m nil_cmd r)"

definition Update :: "env \<Rightarrow> rng \<Rightarrow> Msg \<Rightarrow> model \<Rightarrow> result option" where
  "Update e r msg m =
     (if state m = stateMenu then Update_Menu e r msg m
      else if state m = stateTimeSelect then Update_TimeSelect e r msg m
      else if state m = stateRunning then Update_Running e r msg m
      else if state m = stateResults then Update_Results e r msg m
      else ret (m\<lparr>state := stateMenu\<rparr>) nil_cmd r)"

text \<open>
  The states the program can be in: the initial model, and what \<open>Update\<close> returns from a
  reachable state on any message, whatever the widgets, the scanner, the clock and the
  random source do.
\<close>

inductive reachable :: "model \<Rightarrow> bool" where
  reachable_init: "reachable initialModel"
| reachable_step: "reachable m \<Longrightarrow> Update e r msg m = Some (Done out) \<Longrightarrow> reachable (next_model out)"

section \<open>The countdown bar\<close>

text \<open>
  \<open>renderCountdownBar\<close> computes \<open>percent\<close> in \<open>float64\<close>. The floating-point operations
  it uses are parameters: the conversion of an integer, division, multiplication, the
  conversion \<open>int(_)\<close> back (whose result is some 64-bit integer, whatever the operand),
  the comparison \<open>>\<close>, and the constants \<open>0.5\<close> and \<open>0.2\<close>.
\<close>

record 'f float64_ops =
  of_int64 :: "int \<Rightarrow> 'f"
  fdiv :: "'f \<Rightarrow> 'f \<Rightarrow> 'f"
  fmul :: "'f \<Rightarrow> 'f \<Rightarrow> 'f"
  to_int64 :: "'f \<Rightarrow> int"
  fgt :: "'f \<Rightarrow> 'f \<Rightarrow> bool"
  f_half :: 'f
  f_fifth :: 'f

text \<open>
  The parameters \<open>timeRemaining\<close> and \<open>flashColorOverride\<close> of the source are
  \<open>secondsLeft\<close> and \<open>override\<close> here, the former names being fields of the model.
\<close>

text \<open>A style of the rendering library, and a string as the pieces it is concatenated from.\<close>

datatype Style = NewStyle | Foreground string

datatype piece = Plain string | Render Style string

definition greenBar :: Style where "greenBar = Foreground ''10''"
definition yellowBar :: Style where "yellowBar = Foreground ''11''"
definition redBar :: Style where "redBar = Foreground ''88''"
definition brightGreen :: Style where "brightGreen = Foreground ''82''"
definition brightRed :: Style where "brightRed = Foreground ''196''"

text \<open>The bomb U+1F4A3, the collision sign U+1F4A5 and the full block U+2588, in UTF-8.\<close>

definition glyph_bomb :: string where
  "glyph_bomb = [char_of (0xF0 :: nat), char_of (0x9F :: nat), char_of (0x92 :: nat), char_of (0xA3 :: nat)]"

definition glyph_boom :: string where
  "glyph_boom = [char_of (0xF0 :: nat), char_of (0x9F :: nat), char_of (0x92 :: nat), char_of (0xA5 :: nat)]"

definition glyph_block :: string where
  "glyph_block = [char_of (0xE2 :: nat), char_of (0x96 :: nat), char_of (0x88 :: nat)]"

text \<open>\<open>percent := float64(timeRemaining) / float64(totalTime)\<close>\<close>

definition bar_percent :: "'f float64_ops \<Rightarrow> int \<Rightarrow> int \<Rightarrow> 'f" where
  "bar_percent fo secondsLeft totalTime = fdiv fo (of_int64 fo secondsLeft) (of_int64 fo totalTime)"

text \<open>The number of filled columns: the conversion, the adjustment and the two clamps.\<close>

definition bar_filled :: "'f float64_ops \<Rightarrow> int \<Rightarrow> int \<Rightarrow> int \<Rightarrow> int \<Rightarrow> int" where
  "bar_filled fo secondsLeft totalTime width adjust =
     (let percent = bar_percent fo secondsLeft totalTime;
          filled0 = wrap64 (to_int64 fo (fmul fo percent (of_int64 fo width)));
          filled1 = wrap64 (filled0 + adjust);
          filled2 = (if filled1 > width then width else filled1)
      in if filled2 < 0 then 0 else filled2)"

definition bar_color :: "'f float64_ops \<Rightarrow> 'f \<Rightarrow> string \<Rightarrow> Style" where
  "bar_color fo percent override =
     (if override \<noteq> [] then
        (if override = ''brightGreen'' then brightGreen
         else if override = ''brightRed'' then brightRed
         else NewStyle)
      else
        (if fgt fo percent (f_half fo) then greenBar
         else if fgt fo percent (f_fifth fo) then yellowBar
         else redBar))"

text \<open>The loop \<open>for i := 0; i < width; i++\<close>, which appends one cell to \<open>bar\<close> each time.\<close>

function bar_loop :: "int \<Rightarrow> int \<Rightarrow> int \<Rightarrow> Style \<Rightarrow> string \<Rightarrow> piece list \<Rightarrow> piece list" where
  "bar_loop i width filled barColor fuseChar bar =
     (if i < width then
        bar_loop (i + 1) width filled barColor fuseChar
          (bar @ [if i = filled - 1 then Render (Foreground ''11'') fuseChar
                  else if i < filled then Render barColor glyph_block
                  else Plain '' ''])
      else bar)"
  by pat_completeness auto
termination
  by (relation "measure (\<lambda>(i, width, filled, barColor, fuseChar, bar). nat (width - i))") auto

definition renderCountdownBar ::
  "'f float64_ops \<Rightarrow> int \<Rightarrow> int \<Rightarrow> int \<Rightarrow> int \<Rightarrow> string \<Rightarrow> string \<Rightarrow> piece list" where
  "renderCountdownBar fo secondsLeft totalTime width adjust override fuseChar =
     (if secondsLeft \<le> 0 then [Plain (glyph_boom @ '' TIME'' @ [CHR 0x27] @ ''S UP! '' @ glyph_boom)]
      else
        (let percent = bar_percent fo secondsLeft totalTime;
             filled = bar_filled fo secondsLeft totalTime width adjust;
             barColor = bar_color fo percent override;
             bar = bar_loop 0 width filled barColor fuseChar []
         in [Plain (glyph_bomb @ ''['')] @ bar @ [Plain '']'']))"

section \<open>Concrete collaborators\<close>

text \<open>
  Instances of the parameters, on which the model is evaluated: a list widget that keeps
  its state on every message, a text input that appends the runes typed while it has the
  focus, a clock that stands still, a scanner of a decimal integer
  (spaces, an optional sign, then digits, the rest of the input ignored; a value outside
  64 bits is an error), and exact rational arithmetic for \<open>float64\<close>.
\<close>

definition digit_val :: "char \<Rightarrow> nat option" where
  "digit_val c =
     map_of [(CHR ''0'', 0), (CHR ''1'', 1), (CHR ''2'', 2), (CHR ''3'', 3), (CHR ''4'', 4),
             (CHR ''5'', 5), (CHR ''6'', 6), (CHR ''7'', 7), (CHR ''8'', 8), (CHR ''9'', 9)] c"

fun scan_digits :: "string \<Rightarrow> nat \<Rightarrow> nat" where
  "scan_digits [] acc = acc"
| "scan_digits (c # cs) acc =
     (case digit_val c of Some d \<Rightarrow> scan_digits cs (acc * 10 + d) | None \<Rightarrow> acc)"

definition scan_int :: "string \<Rightarrow> int option" where
  "scan_int s =
     (let s1 = dropWhile (\<lambda>c. c = CHR '' '') s;
          (neg, s2) = (case s1 of
                         [] \<Rightarrow> (False, [])
                       | c # cs \<Rightarrow> if c = CHR ''-'' then (True, cs)
                                  else if c = CHR ''+'' then (False, cs) else (False, s1))
      in case s2 of
           [] \<Rightarrow> None
         | c # cs \<Rightarrow>
             (case digit_val c of
                None \<Rightarrow> None
              | Some d \<Rightarrow>
                  (let v = (if neg then - int (scan_digits s2 0) else int (scan_digits s2 0))
                   in if wrap64 v = v then Some v else None)))"

definition typing :: "Msg \<Rightarrow> textinput_Model \<Rightarrow> textinput_Model \<times> Cmd" where
  "typing msg t =
     (case msg of
        KeyMsg k \<Rightarrow>
          if focus t \<and> keyType k = KeyRunes then (t\<lparr>Value := Value t @ keyString k\<rparr>, nil_cmd)
          else (t, nil_cmd)
      | _ \<Rightarrow> (t, nil_cmd))"

definition plain_env :: env where
  "plain_env =
     \<lparr>list_Update = (\<lambda>msg l. (l, nil_cmd)),
      textinput_Update = typing,
      Sscanf_d = scan_int,
      Now = 0,
      Since = (\<lambda>t. 0)\<rparr>"

definition key_enter :: Key where
  "key_enter = \<lparr>keyType = KeyEnter, keyString = ''enter''\<rparr>"

definition key_rune :: "string \<Rightarrow> Key" where
  "key_rune s = \<lparr>keyType = KeyRunes, keyString = s\<rparr>"

text \<open>
  A session: the first difficulty is chosen, then the first duration, which draws the
  question \<open>9 - 2 = ?\<close>; the player types 7 and confirms.
\<close>

definition at_TimeSelect :: model where
  "at_TimeSelect = initialModel\<lparr>state := stateTimeSelect, difficulty := ''1st Grade''\<rparr>"

definition at_Running :: model where
  "at_Running =
     at_TimeSelect\<lparr>state := stateRunning, timeLimit := 30, timeRemaining := 30 * Second,
       currentQ := \<lparr>Text = ''9 - 2 = ?'', Answer = 7, OpType = ''subtraction'',
                     UniqueID = ''1st Grade|12''\<rparr>,
       usedQuestions := {''1st Grade|12''}\<rparr>"

definition typed :: "string \<Rightarrow> model \<Rightarrow> model" where
  "typed s m = m\<lparr>textInput := (textInput m)\<lparr>Value := s\<rparr>\<rparr>"

definition exact_ops :: "rat float64_ops" where
  "exact_ops =
     \<lparr>of_int64 = of_int, fdiv = (\<lambda>x y. x / y), fmul = (\<lambda>x y. x * y),
      to_int64 = (\<lambda>x. if x < 0 then - \<lfloor>- x\<rfloor> else \<lfloor>x\<rfloor>),
      fgt = (\<lambda>x y. x > y), f_half = 1 / 2, f_fifth = 1 / 5\<rparr>"

section \<open>The question generator: what a returned question is\<close>

text \<open>
  A result of \<open>generateQuestion\<close> is built from the locals of one iteration, with an id
  that was not in \<open>used\<close> and has been added to it.
\<close>

lemma generateQuestion_result:
  assumes "generateQuestion d used r = Some y"
  shows "\<exists>r0 l uid. attempt d r0 = (l, uid, snd (snd y)) \<and> fst y = mkQuestion l uid
           \<and> uid \<notin> used \<and> fst (snd y) = insert uid used"
proof (rule generateQuestion.raw_induct
    [where P = "\<lambda>d used r y. \<exists>r0 l uid. attempt d r0 = (l, uid, snd (snd y)) \<and>
        fst y = mkQuestion l uid \<and> uid \<notin> used \<and> fst (snd y) = insert uid used", OF _ assms])
  fix gq :: "string \<Rightarrow> string set \<Rightarrow> rng \<Rightarrow> (Question \<times> string set \<times> rng) option"
  fix d used r y
  assume IH: "\<And>d used r y. gq d used r = Some y \<Longrightarrow>
      \<exists>r0 l uid. attempt d r0 = (l, uid, snd (snd y)) \<and> fst y = mkQuestion l uid
           \<and> uid \<notin> used \<and> fst (snd y) = insert uid used"
  assume body: "(case attempt d r of (l, uid, r') \<Rightarrow>
        if uid \<in> used then gq d used r' else Some (mkQuestion l uid, insert uid used, r')) = Some y"
  obtain l uid r1 where a: "attempt d r = (l, uid, r1)" by (cases "attempt d r") auto
  show "\<exists>r0 l uid. attempt d r0 = (l, uid, snd (snd y)) \<and> fst y = mkQuestion l uid
           \<and> uid \<notin> used \<and> fst (snd y) = insert uid used"
  proof (cases "uid \<in> used")
    case True
    with body a have "gq d used r1 = Some y" by simp
    then show ?thesis by (rule IH)
  next
    case False
    with body a have "y = (mkQuestion l uid, insert uid used, r1)" by auto
    with a False show ?thesis by auto
  qed
qed

lemma attempt_locals: "attempt d r = (l, uid, r') \<Longrightarrow> l = fst (gen_locals d r)"
  by (auto simp: attempt_def Int_rand_def split: prod.splits)

lemma generateQuestion_locals:
  assumes "generateQuestion d used r = Some (q, used', r')"
  shows "\<exists>r0. Text q = l_text (fst (gen_locals d r0)) \<and> Answer q = l_answer (fst (gen_locals d r0))
            \<and> OpType q = l_opType (fst (gen_locals d r0))"
proof -
  from generateQuestion_result[OF assms] obtain r0 l uid
    where "attempt d r0 = (l, uid, r')" "q = mkQuestion l uid" by auto
  then show ?thesis using attempt_locals[of d r0 l uid r'] by (auto simp: mkQuestion_def)
qed

lemma mod4_cases: "(n::nat) mod 4 = 0 \<or> n mod 4 = 1 \<or> n mod 4 = 2 \<or> n mod 4 = 3"
  by arith

lemma mod7_cases: "(n::nat) mod 7 = 0 \<or> n mod 7 = 1 \<or> n mod 7 = 2 \<or> n mod 7 = 3 \<or> n mod 7 = 4 \<or> n mod 7 = 5 \<or> n mod 7 = 6"
  by arith

lemma gen_1st_subtraction:
  "l_opType (fst (gen_1st r)) = ''subtraction'' \<Longrightarrow> 0 \<le> l_answer (fst (gen_1st r))"
  by (auto simp: gen_1st_def Intn_def Let_def map_index_def split: if_splits)

lemma gen_5th_division:
  assumes "l_opType (fst (gen_5th r)) = ''division''"
  shows "1 \<le> l_b (fst (gen_5th r)) \<and> l_b (fst (gen_5th r)) \<le> 15
       \<and> 1 \<le> l_answer (fst (gen_5th r)) \<and> l_answer (fst (gen_5th r)) \<le> 20
       \<and> l_a (fst (gen_5th r)) = l_b (fst (gen_5th r)) * l_answer (fst (gen_5th r))
       \<and> l_text (fst (gen_5th r)) = arith_text (l_a (fst (gen_5th r))) ''/'' (l_b (fst (gen_5th r)))"
proof -
  have b15: "shd (stl r) mod 15 \<le> 14" by arith
  have b20: "shd (stl (stl r)) mod 20 \<le> 19" by arith
  from mod4_cases[of "shd r"] show ?thesis
  proof (elim disjE)
    assume "shd r mod 4 = 3"
    then show ?thesis using b15 b20
      by (simp add: gen_5th_def Intn_def Let_def map_index_def)
  qed (use assms in \<open>simp_all add: gen_5th_def Intn_def Let_def map_index_def\<close>)
qed

lemma gen_algebra_answer:
  "(l_opType (fst (gen_algebra r)) \<noteq> ''algebra_division'' \<longrightarrow>
       - 20 \<le> l_answer (fst (gen_algebra r)) \<and> l_answer (fst (gen_algebra r)) \<le> 20) \<and>
   (l_opType (fst (gen_algebra r)) = ''algebra_division'' \<longrightarrow>
       (\<exists>n m. 1 \<le> n \<and> n \<le> 5 \<and> - 10 \<le> m \<and> m \<le> 10 \<and> m \<noteq> 0 \<and>
              l_answer (fst (gen_algebra r)) = n * m))"
proof -
  have b41: "int (shd (stl r) mod 41) \<le> 40" by simp
  from mod7_cases[of "shd r"] show ?thesis
  proof (elim disjE)
    assume f: "shd r mod 7 = 5"
    let ?n = "int (shd (stl r) mod 5) + 1"
    let ?m0 = "int (shd (stl (stl r)) mod 21) - 10"
    let ?m = "if ?m0 = 0 then 1 else ?m0"
    have "int (shd (stl r) mod 5) < 5" "int (shd (stl (stl r)) mod 21) < 21" by simp_all
    then have "1 \<le> ?n \<and> ?n \<le> 5 \<and> - 10 \<le> ?m \<and> ?m \<le> 10 \<and> ?m \<noteq> 0" by auto
    moreover have "l_answer (fst (gen_algebra r)) = ?n * ?m" "l_opType (fst (gen_algebra r)) = ''algebra_division''"
      using f by (simp_all add: gen_algebra_def Intn_def Let_def zero_locals_def)
    ultimately show ?thesis by blast
  qed (use b41 in \<open>simp_all add: gen_algebra_def Intn_def Let_def zero_locals_def\<close>)
qed

text \<open>The loop returns as soon as one iteration draws an id that is not in \<open>used\<close>.\<close>

lemma generateQuestion_returns:
  "id_drawn d k r \<notin> used \<Longrightarrow> \<exists>y. generateQuestion d used r = Some y"
  unfolding id_drawn_def
proof (induction k arbitrary: r)
  case 0
  then show ?case by (subst generateQuestion.simps) (auto split: prod.splits)
next
  case (Suc k)
  show ?case
  proof (cases "fst (snd (attempt d r)) \<in> used")
    case True
    from Suc.prems have "fst (snd (attempt d (rng_after d k (snd (snd (attempt d r)))))) \<notin> used" by simp
    from Suc.IH[OF this] obtain y where y: "generateQuestion d used (snd (snd (attempt d r))) = Some y" by blast
    have "generateQuestion d used r = generateQuestion d used (snd (snd (attempt d r)))"
      using True by (subst generateQuestion.simps) (auto split: prod.splits)
    with y have "generateQuestion d used r = Some y" by simp
    then show ?thesis ..
  next
    case False
    then show ?thesis by (subst generateQuestion.simps) (auto split: prod.splits)
  qed
qed

text \<open>
  Whenever \<open>used\<close> misses one of the ids \<open>d|n\<close> with \<open>n\<close> below \<open>2^63\<close>, some random
  source draws it in the first iteration.
\<close>

lemma gen_locals_sconst: "snd (gen_locals d (sconst n)) = sconst n"
proof -
  have c4: "snd (gen_5th (sconst n)) = sconst n"
    using mod4_cases[of n]
    by (elim disjE) (simp_all add: gen_5th_def Intn_def Let_def)
  have c3: "snd (gen_3rd (sconst n)) = sconst n"
    by (simp add: gen_3rd_def Intn_def Let_def)
  have c7: "snd (gen_algebra (sconst n)) = sconst n"
    using mod7_cases[of n]
    by (elim disjE) (simp_all add: gen_algebra_def Intn_def Let_def)
  have c1: "snd (gen_1st (sconst n)) = sconst n"
    by (simp add: gen_1st_def Intn_def Let_def split: prod.splits)
  have c0: "snd (gen_default (sconst n)) = sconst n"
    by (simp add: gen_default_def Intn_def Let_def)
  show ?thesis by (simp add: gen_locals_def c0 c1 c3 c4 c7)
qed

lemma fresh_draw_possible:
  assumes "n < 9223372036854775808" and "d @ ''|'' @ itoa (int n) \<notin> used"
  shows "id_drawn d 0 (sconst n) \<notin> used"
proof -
  obtain l where "gen_locals d (sconst n) = (l, sconst n)"
    using gen_locals_sconst[of d n] by (cases "gen_locals d (sconst n)") auto
  then have "id_drawn d 0 (sconst n) = d @ ''|'' @ itoa (int n)"
    using assms(1) by (simp add: id_drawn_def attempt_def Int_rand_def)
  with assms(2) show ?thesis by simp
qed

section \<open>The scoring step\<close>

lemma Update_Running_enter:
  assumes "state m = stateRunning" "keyString k = ''enter''"
  shows "Update e r (KeyMsg k) m =
     (case Sscanf_d e (Value (fst (textinput_Update e (KeyMsg k) (textInput m)))) of
        Some n \<Rightarrow> ret (score e (Value (fst (textinput_Update e (KeyMsg k) (textInput m)))) n
                     (m\<lparr>textInput := fst (textinput_Update e (KeyMsg k) (textInput m))\<rparr>))
                   (Batch [flashTimeout, flashFadeTick]) r
      | None \<Rightarrow> ret (m\<lparr>textInput := fst (textinput_Update e (KeyMsg k) (textInput m))\<rparr>)
                   (Batch [snd (textinput_Update e (KeyMsg k) (textInput m))]) r)"
  using assms
  by (simp add: Update_def Update_Running_def Running_events_def Let_def split: prod.splits option.splits)

lemma score_answers:
  "answers (score e inp n m) = answers m @
     [\<lparr>Question = currentQ m, Correct = (n = Answer (currentQ m)),
       Duration = Since e (questionStart m), UserInput = inp\<rparr>]"
  by (simp add: score_def Let_def)

lemma score_frame:
  "state (score e inp n m) = state m" "currentQ (score e inp n m) = currentQ m"
  "timeLimit (score e inp n m) = timeLimit m" "usedQuestions (score e inp n m) = usedQuestions m"
  "flashActive (score e inp n m)" "suspendTick (score e inp n m)"
  "limit_duration (score e inp n m) = limit_duration m"
  by (simp_all add: score_def Let_def limit_duration_def)

lemma score_timeRemaining:
  "timeRemaining (score e inp n m) =
     (if n = Answer (currentQ m) then
        (if wrap64 (timeRemaining m + Second) > limit_duration m then limit_duration m
         else wrap64 (timeRemaining m + Second))
      else
        (if wrap64 (timeRemaining m - Second) < Second then Second
         else wrap64 (timeRemaining m - Second)))"
  by (simp add: score_def Let_def limit_duration_def)

lemma wrap64_id: "- 9223372036854775808 \<le> x \<Longrightarrow> x \<le> 9223372036854775807 \<Longrightarrow> wrap64 x = x"
  by (simp add: wrap64_def)

section \<open>Evaluated runs of the generator\<close>

lemmas gen_eval = attempt_def gen_locals_def Intn_def Int_rand_def itoa_def arith_text_def
  map_index_def mkQuestion_def zero_locals_def

lemma example_1st:
  "generateQuestion ''1st Grade'' {''1st Grade|7''} (3 ## 8 ## 1 ## 7 ## 2 ## 9 ## 1 ## 12 ## sconst 0) =
     Some (\<lparr>Text = ''9 - 2 = ?'', Answer = 7, OpType = ''subtraction'', UniqueID = ''1st Grade|12''\<rparr>,
           {''1st Grade|12'', ''1st Grade|7''}, sconst 0)"
  apply (subst generateQuestion.simps)
  apply (simp add: gen_eval gen_1st_def)
  apply (subst generateQuestion.simps)
  apply (simp add: gen_eval gen_1st_def)
  done

lemma example_5th:
  "generateQuestion ''5th Grade'' {} (3 ## 4 ## 6 ## sconst 0) =
     Some (\<lparr>Text = ''35 / 5 = ?'', Answer = 7, OpType = ''division'', UniqueID = ''5th Grade|0''\<rparr>,
           {''5th Grade|0''}, sconst 0)"
  apply (subst generateQuestion.simps)
  apply (simp add: gen_eval gen_5th_def)
  done

lemma example_algebra:
  "generateQuestion ''Algebra'' {} (5 ## 4 ## 20 ## sconst 0) =
     Some (\<lparr>Text = ''x '' @ div_sign @ '' 5 = 10. What is x?'', Answer = 50,
            OpType = ''algebra_division'', UniqueID = ''Algebra|0''\<rparr>,
           {''Algebra|0''}, sconst 0)"
  apply (subst generateQuestion.simps)
  apply (simp add: gen_eval gen_algebra_def)
  done

section \<open>An evaluated session\<close>

lemmas run_eval = Update_def Update_Menu_def Update_TimeSelect_def Update_Running_def
  Running_events_def Update_Results_def ret_def plain_env_def typing_def key_enter_def key_rune_def
  SelectedItem_def Select_def list_New_def textinput_New_def Reset_def Focus_def Blur_def
  initialModel_def diffItems_def timeItems_def set_timeLimit_def limit_duration_def
  at_TimeSelect_def at_Running_def typed_def zero_Question_def

lemma run_Menu_enter:
  "Update plain_env r (KeyMsg key_enter) initialModel =
     Some (Done \<lparr>next_model = at_TimeSelect, cmd = nil_cmd, rand = r, printed = []\<rparr>)"
  by (simp add: run_eval)

lemma example_first_question:
  "generateQuestion ''1st Grade'' {} (2 ## 9 ## 3 ## 12 ## sconst 0) =
     Some (\<lparr>Text = ''9 - 2 = ?'', Answer = 7, OpType = ''subtraction'', UniqueID = ''1st Grade|12''\<rparr>,
           {''1st Grade|12''}, sconst 0)"
  apply (subst generateQuestion.simps)
  apply (simp add: gen_eval gen_1st_def)
  done

lemma run_TimeSelect_enter:
  "Update plain_env (2 ## 9 ## 3 ## 12 ## sconst 0) (KeyMsg key_enter) at_TimeSelect =
     Some (Done \<lparr>next_model = at_Running, cmd = Batch [tick, fuseTick, pulseTick],
                  rand = sconst 0, printed = []\<rparr>)"
  by (simp add: run_eval example_first_question Second_def wrap64_id)

lemma run_type_7:
  "Update plain_env r (KeyMsg (key_rune ''7'')) at_Running =
     Some (Done \<lparr>next_model = typed ''7'' at_Running, cmd = Batch [nil_cmd], rand = r, printed = []\<rparr>)"
  by (simp add: run_eval)

lemma scan_7: "scan_int ''7'' = Some 7"
  by (simp add: scan_int_def digit_val_def wrap64_def)

lemma scan_abc: "scan_int ''abc'' = None"
  by (simp add: scan_int_def digit_val_def)

lemma run_submit_7:
  "Update plain_env r (KeyMsg key_enter) (typed ''7'' at_Running) =
     Some (Done \<lparr>next_model = score plain_env ''7'' 7 (typed ''7'' at_Running),
                  cmd = Batch [flashTimeout, flashFadeTick], rand = r, printed = []\<rparr>)"
  by (simp add: run_eval scan_7)

section \<open>Claims on the question generator\<close>

text \<open>
  C3. For every difficulty and every set of used ids, \<open>generateQuestion\<close> returns a
  question whose id was not in the set before the call and is in it after the call, the
  set after the call being the set before with that id added. The call returns on every
  random source that, in some iteration \<open>k\<close> of the loop, draws an id that is not in the
  set (\<open>id_drawn d k r \<notin> used\<close>). Every id drawn is one of the possible ids, and
  whenever the set misses a possible id some source draws it (\<open>fresh_draw_possible\<close>); a
  source that only ever draws used ids keeps the loop running.
\<close>

theorem generateQuestion_fresh_id:
  assumes "id_drawn d k r \<notin> used"
  shows "\<exists>q used' r'. generateQuestion d used r = Some (q, used', r') \<and>
           UniqueID q \<notin> used \<and> UniqueID q \<in> used' \<and> used' = insert (UniqueID q) used"
proof -
  from generateQuestion_returns[OF assms] obtain y where y: "generateQuestion d used r = Some y" ..
  from generateQuestion_result[OF y] obtain l uid
    where "fst y = mkQuestion l uid" "uid \<notin> used" "fst (snd y) = insert uid used" by blast
  then have "UniqueID (fst y) \<notin> used \<and> UniqueID (fst y) \<in> fst (snd y)
      \<and> fst (snd y) = insert (UniqueID (fst y)) used"
    by (simp add: mkQuestion_def)
  with y show ?thesis by (cases y) auto
qed

theorem generateQuestion_fresh_id_witness:
  "id_drawn ''1st Grade'' 1 (3 ## 8 ## 1 ## 7 ## 2 ## 9 ## 1 ## 12 ## sconst 0) \<notin> {''1st Grade|7''} \<and>
   (\<exists>q used' r'. generateQuestion ''1st Grade'' {''1st Grade|7''}
        (3 ## 8 ## 1 ## 7 ## 2 ## 9 ## 1 ## 12 ## sconst 0) = Some (q, used', r') \<and>
      UniqueID q \<notin> {''1st Grade|7''} \<and> UniqueID q \<in> used' \<and>
      used' = insert (UniqueID q) {''1st Grade|7''})"
proof -
  have h: "id_drawn ''1st Grade'' 1 (3 ## 8 ## 1 ## 7 ## 2 ## 9 ## 1 ## 12 ## sconst 0) \<notin> {''1st Grade|7''}"
    by (simp add: id_drawn_def gen_eval gen_1st_def)
  from generateQuestion_fresh_id[OF h] h show ?thesis by blast
qed

text \<open>
  C8. A question produced at the difficulty "1st Grade" with the subtraction operator has
  an answer that is not negative.
\<close>

theorem tier1_subtraction_nonneg:
  assumes "generateQuestion ''1st Grade'' used r = Some (q, used', r')"
    and "OpType q = ''subtraction''"
  shows "0 \<le> Answer q"
proof -
  from generateQuestion_locals[OF assms(1)] obtain r0
    where "Answer q = l_answer (fst (gen_locals ''1st Grade'' r0))"
      "OpType q = l_opType (fst (gen_locals ''1st Grade'' r0))" by blast
  with assms(2) show ?thesis
    using gen_1st_subtraction[of r0] by (simp add: gen_locals_def)
qed

theorem tier1_subtraction_nonneg_witness:
  "generateQuestion ''1st Grade'' {''1st Grade|7''} (3 ## 8 ## 1 ## 7 ## 2 ## 9 ## 1 ## 12 ## sconst 0) =
     Some (\<lparr>Text = ''9 - 2 = ?'', Answer = 7, OpType = ''subtraction'', UniqueID = ''1st Grade|12''\<rparr>,
           {''1st Grade|12'', ''1st Grade|7''}, sconst 0) \<and>
   OpType \<lparr>Text = ''9 - 2 = ?'', Answer = 7, OpType = ''subtraction'', UniqueID = ''1st Grade|12''\<rparr> = ''subtraction'' \<and>
   0 \<le> Answer \<lparr>Text = ''9 - 2 = ?'', Answer = 7, OpType = ''subtraction'', UniqueID = ''1st Grade|12''\<rparr>"
  using tier1_subtraction_nonneg[OF example_1st] example_1st by simp

text \<open>
  C7. A question produced at the difficulty "5th Grade" with the division operator reads
  \<open>a / b = ?\<close> with the divisor \<open>b\<close> in \<open>[1, 15]\<close>, the answer in \<open>[1, 20]\<close> and the
  dividend \<open>a\<close> equal to the divisor times the answer, so that the division leaves no
  remainder.
\<close>

theorem tier3_division_exact:
  assumes "generateQuestion ''5th Grade'' used r = Some (q, used', r')"
    and "OpType q = ''division''"
  shows "\<exists>a b. Text q = arith_text a ''/'' b \<and> 1 \<le> b \<and> b \<le> 15 \<and>
           1 \<le> Answer q \<and> Answer q \<le> 20 \<and> a = b * Answer q \<and> go_rem a b = 0"
proof -
  from generateQuestion_locals[OF assms(1)] obtain r0
    where q: "Text q = l_text (fst (gen_locals ''5th Grade'' r0))"
      "Answer q = l_answer (fst (gen_locals ''5th Grade'' r0))"
      "OpType q = l_opType (fst (gen_locals ''5th Grade'' r0))" by blast
  have g: "gen_locals ''5th Grade'' r0 = gen_5th r0" by (simp add: gen_locals_def)
  let ?l = "fst (gen_5th r0)"
  from gen_5th_division[of r0] assms(2) q g
  have d: "1 \<le> l_b ?l" "l_b ?l \<le> 15" "1 \<le> l_answer ?l" "l_answer ?l \<le> 20"
    "l_a ?l = l_b ?l * l_answer ?l" "l_text ?l = arith_text (l_a ?l) ''/'' (l_b ?l)" by simp_all
  have "go_rem (l_a ?l) (l_b ?l) = 0"
    using d by (simp add: go_rem_def abs_mult)
  with d q g show ?thesis by auto
qed

theorem tier3_division_exact_witness:
  "generateQuestion ''5th Grade'' {} (3 ## 4 ## 6 ## sconst 0) =
     Some (\<lparr>Text = ''35 / 5 = ?'', Answer = 7, OpType = ''division'', UniqueID = ''5th Grade|0''\<rparr>,
           {''5th Grade|0''}, sconst 0) \<and>
   (\<exists>a b. ''35 / 5 = ?'' = arith_text a ''/'' b \<and> 1 \<le> b \<and> b \<le> 15 \<and> a = b * 7 \<and> go_rem a b = 0)"
  using tier3_division_exact[OF example_5th] example_5th by simp

text \<open>
  C4, as stated, fails: the division template of the Algebra difficulty computes the answer
  as \<open>n * m\<close> with \<open>n\<close> up to 5 and \<open>m\<close> up to 10, and the draws 4 and 20 give the answer 50.
\<close>

theorem algebra_division_answer_50:
  "generateQuestion ''Algebra'' {} (5 ## 4 ## 20 ## sconst 0) =
     Some (\<lparr>Text = ''x '' @ div_sign @ '' 5 = 10. What is x?'', Answer = 50,
            OpType = ''algebra_division'', UniqueID = ''Algebra|0''\<rparr>,
           {''Algebra|0''}, sconst 0) \<and>
   \<not> Answer \<lparr>Text = ''x '' @ div_sign @ '' 5 = 10. What is x?'', Answer = 50,
            OpType = ''algebra_division'', UniqueID = ''Algebra|0''\<rparr> \<le> 20"
  using example_algebra by simp

text \<open>
  C4, amended. A question produced at the Algebra difficulty by one of the six templates
  other than division has its answer in \<open>[-20, 20]\<close>; the answer of the division template
  is \<open>n * m\<close> with \<open>n\<close> in \<open>[1, 5]\<close> and \<open>m\<close> in \<open>[-10, 10]\<close>, \<open>m\<close> not 0, so it lies in
  \<open>[-50, 50]\<close> and is not 0.
\<close>

theorem algebra_answer_range:
  assumes "generateQuestion ''Algebra'' used r = Some (q, used', r')"
  shows "(OpType q \<noteq> ''algebra_division'' \<longrightarrow> - 20 \<le> Answer q \<and> Answer q \<le> 20) \<and>
         (OpType q = ''algebra_division'' \<longrightarrow>
            (\<exists>n m. 1 \<le> n \<and> n \<le> 5 \<and> - 10 \<le> m \<and> m \<le> 10 \<and> m \<noteq> 0 \<and> Answer q = n * m) \<and>
            - 50 \<le> Answer q \<and> Answer q \<le> 50 \<and> Answer q \<noteq> 0)"
proof -
  from generateQuestion_locals[OF assms] obtain r0
    where q: "Answer q = l_answer (fst (gen_locals ''Algebra'' r0))"
      "OpType q = l_opType (fst (gen_locals ''Algebra'' r0))" by blast
  have g: "gen_locals ''Algebra'' r0 = gen_algebra r0" by (simp add: gen_locals_def)
  have prod: "- 50 \<le> n * m \<and> n * m \<le> 50 \<and> n * m \<noteq> 0"
    if "1 \<le> n" "n \<le> 5" "- 10 \<le> m" "m \<le> 10" "m \<noteq> 0" for n m :: int
  proof -
    have "\<bar>n\<bar> * \<bar>m\<bar> \<le> 5 * 10" using that by (intro mult_mono) auto
    then have "\<bar>n * m\<bar> \<le> 50" by (simp add: abs_mult)
    moreover have "n * m \<noteq> 0" using that by simp
    ultimately show ?thesis by linarith
  qed
  from gen_algebra_answer[of r0] q g prod show ?thesis by (auto simp del: mult_eq_0_iff)
qed

theorem algebra_answer_range_witness:
  "generateQuestion ''Algebra'' {} (5 ## 4 ## 20 ## sconst 0) =
     Some (\<lparr>Text = ''x '' @ div_sign @ '' 5 = 10. What is x?'', Answer = 50,
            OpType = ''algebra_division'', UniqueID = ''Algebra|0''\<rparr>,
           {''Algebra|0''}, sconst 0) \<and>
   (\<exists>n m. 1 \<le> n \<and> n \<le> 5 \<and> - 10 \<le> m \<and> m \<le> 10 \<and> m \<noteq> 0 \<and> (50::int) = n * m)"
  using algebra_answer_range[OF example_algebra] example_algebra by simp

section \<open>Helper facts on the session\<close>

lemma score_in_budget:
  assumes "Second \<le> timeRemaining m" "timeRemaining m \<le> limit_duration m"
    "limit_duration m + Second \<le> 9223372036854775807"
  shows "Second \<le> timeRemaining (score e inp n m) \<and>
         timeRemaining (score e inp n m) \<le> limit_duration (score e inp n m)"
proof -
  have S: "0 < Second" by (simp add: Second_def)
  have up: "wrap64 (timeRemaining m + Second) = timeRemaining m + Second"
    using assms S by (intro wrap64_id) simp_all
  have dn: "wrap64 (timeRemaining m - Second) = timeRemaining m - Second"
    using assms S by (intro wrap64_id) simp_all
  show ?thesis
    using assms(1,2) S by (auto simp add: score_timeRemaining score_frame up dn)
qed

lemma plain_env_sel:
  "Sscanf_d plain_env = scan_int" "textinput_Update plain_env = typing"
  "Since plain_env t = 0" "Now plain_env = 0" "list_Update plain_env msg l = (l, nil_cmd)"
  by (simp_all add: plain_env_def)

lemma scan_5: "scan_int ''5'' = Some 5"
  by (simp add: scan_int_def digit_val_def wrap64_def)

lemma run_submit_5:
  "Update plain_env r (KeyMsg key_enter) (typed ''5'' at_Running) =
     Some (Done \<lparr>next_model = score plain_env ''5'' 5 (typed ''5'' at_Running),
                  cmd = Batch [flashTimeout, flashFadeTick], rand = r, printed = []\<rparr>)"
  by (simp add: run_eval scan_5)

lemma after_submit_5:
  "state (score plain_env ''5'' 5 (typed ''5'' at_Running)) = stateRunning"
  "textInput (score plain_env ''5'' 5 (typed ''5'' at_Running)) =
     \<lparr>Placeholder = ''Your answer'', CharLimit = 5, Width = 20, Value = ''5'', focus = False\<rparr>"
  "timeRemaining (score plain_env ''5'' 5 (typed ''5'' at_Running)) = 29 * Second"
  "limit_duration (score plain_env ''5'' 5 (typed ''5'' at_Running)) = 30 * Second"
  "answers (score plain_env ''5'' 5 (typed ''5'' at_Running)) =
     [\<lparr>Question = \<lparr>Text = ''9 - 2 = ?'', Answer = 7, OpType = ''subtraction'',
                     UniqueID = ''1st Grade|12''\<rparr>,
       Correct = False, Duration = 0, UserInput = ''5''\<rparr>]"
  "currentQ (score plain_env ''5'' 5 (typed ''5'' at_Running)) =
     \<lparr>Text = ''9 - 2 = ?'', Answer = 7, OpType = ''subtraction'', UniqueID = ''1st Grade|12''\<rparr>"
  "questionStart (score plain_env ''5'' 5 (typed ''5'' at_Running)) = 0"
  by (simp_all add: score_def Let_def run_eval Second_def wrap64_def)

section \<open>The phases of a session\<close>

lemma Update_Menu_step:
  assumes "Update_Menu e r msg m = Some (Done out)"
  shows "answers (next_model out) = answers m \<and> usedQuestions (next_model out) = usedQuestions m \<and>
         timeLimit (next_model out) = timeLimit m \<and>
         (state (next_model out) = state m \<or> state (next_model out) = stateTimeSelect)"
  using assms
  by (auto simp: Update_Menu_def ret_def Let_def split: prod.splits Msg.splits if_splits option.splits)

lemma set_timeLimit_frame:
  "answers (set_timeLimit nm m) = answers m" "usedQuestions (set_timeLimit nm m) = usedQuestions m"
  "state (set_timeLimit nm m) = state m" "difficulty (set_timeLimit nm m) = difficulty m"
  "timeLimit (set_timeLimit nm m) \<in> {timeLimit m, 30, 60, 90, 120}"
  by (simp_all add: set_timeLimit_def)

lemma Update_TimeSelect_step:
  assumes "Update_TimeSelect e r msg m = Some (Done out)"
  shows "timeLimit (next_model out) \<in> {timeLimit m, 30, 60, 90, 120} \<and>
         (state (next_model out) = stateRunning \<or>
          (state (next_model out) = state m \<or> state (next_model out) = stateMenu) \<and>
          answers (next_model out) = answers m \<and> usedQuestions (next_model out) = usedQuestions m)"
proof -
  obtain l' c where l: "list_Update e msg (timeList m) = (l', c)" by (cases "list_Update e msg (timeList m)")
  show ?thesis
  proof (cases msg)
    case (KeyMsg k)
    show ?thesis
    proof (cases "keyString k = ''enter''")
      case True
      show ?thesis
      proof (cases "SelectedItem l'")
        case None
        with assms l KeyMsg True show ?thesis
          by (auto simp: Update_TimeSelect_def ret_def Let_def)
      next
        case (Some sel)
        let ?m1 = "set_timeLimit (name sel) (m\<lparr>timeList := l'\<rparr>)"
        from assms l KeyMsg True Some obtain q used'
          where out: "next_model out = ?m1\<lparr>currentQ := q, usedQuestions := used', totalStart := Now e,
              questionStart := Now e,
              timeRemaining := limit_duration (?m1\<lparr>currentQ := q, usedQuestions := used', totalStart := Now e,
                 questionStart := Now e\<rparr>), state := stateRunning, startTime := Now e\<rparr>"
          by (auto simp: Update_TimeSelect_def ret_def Let_def split: option.splits)
        have "timeLimit ?m1 \<in> {timeLimit m, 30, 60, 90, 120}"
          using set_timeLimit_frame(5)[of "name sel" "m\<lparr>timeList := l'\<rparr>"] by simp
        with out show ?thesis by simp
      qed
    next
      case False
      with assms l KeyMsg show ?thesis
        by (auto simp: Update_TimeSelect_def ret_def Let_def split: if_splits)
    qed
  qed (use assms l in \<open>auto simp: Update_TimeSelect_def ret_def Let_def\<close>)
qed

lemma Running_events_step:
  assumes "Running_events e r msg cmds m = Some (Done out)"
  shows "timeLimit (next_model out) = timeLimit m \<and>
         (state (next_model out) = state m \<or>
          state (next_model out) = stateMenu \<and> answers (next_model out) = [] \<and>
          usedQuestions (next_model out) = {})"
proof -
  obtain ti c where t: "textinput_Update e msg (textInput m) = (ti, c)"
    by (cases "textinput_Update e msg (textInput m)")
  show ?thesis
  proof (cases msg)
    case flashDoneMsg
    with assms t show ?thesis
      by (auto simp: Running_events_def ret_def Let_def split: option.splits)
  next
    case flashFadeMsg
    with assms t show ?thesis
      by (auto simp: Running_events_def ret_def Let_def split: if_splits)
  next
    case (KeyMsg k)
    with assms t show ?thesis
      by (auto simp: Running_events_def ret_def Let_def score_frame split: if_splits option.splits)
  qed (use assms t in \<open>auto simp: Running_events_def ret_def Let_def\<close>)
qed

lemma Update_Running_step:
  assumes "Update_Running e r msg m = Some (Done out)"
  shows "timeLimit (next_model out) = timeLimit m \<and>
         (state (next_model out) = state m \<or> state (next_model out) = stateResults \<or>
          state (next_model out) = stateMenu \<and> answers (next_model out) = [] \<and>
          usedQuestions (next_model out) = {})"
proof (cases msg)
  case (tickMsg t)
  let ?m1 = "if \<not> suspendTick m then m\<lparr>timeRemaining := wrap64 (timeRemaining m - Second)\<rparr> else m"
  have f: "timeLimit ?m1 = timeLimit m" "state ?m1 = state m" by simp_all
  show ?thesis
  proof (cases "timeRemaining ?m1 \<le> 0")
    case True
    with assms tickMsg have "next_model out = ?m1\<lparr>state := stateResults\<rparr>"
      by (auto simp: Update_Running_def Let_def)
    then show ?thesis using f by simp
  next
    case False
    with assms tickMsg have "Running_events e r msg [tick] ?m1 = Some (Done out)"
      by (auto simp: Update_Running_def Let_def)
    from Running_events_step[OF this] f show ?thesis by auto
  qed
next
  case fuseTickMsg
  with assms show ?thesis by (auto simp: Update_Running_def ret_def Let_def split: if_splits)
next
  case pulseTickMsg
  with assms show ?thesis by (auto simp: Update_Running_def ret_def Let_def split: if_splits)
next
  case flashDoneMsg
  with assms have "Running_events e r msg [] m = Some (Done out)" by (simp add: Update_Running_def)
  from Running_events_step[OF this] show ?thesis by auto
next
  case flashFadeMsg
  with assms have "Running_events e r msg [] m = Some (Done out)" by (simp add: Update_Running_def)
  from Running_events_step[OF this] show ?thesis by auto
next
  case (KeyMsg k)
  with assms have "Running_events e r msg [] m = Some (Done out)" by (simp add: Update_Running_def)
  from Running_events_step[OF this] show ?thesis by auto
next
  case (otherMsg n)
  with assms have "Running_events e r msg [] m = Some (Done out)" by (simp add: Update_Running_def)
  from Running_events_step[OF this] show ?thesis by auto
qed

lemma Update_Results_step:
  assumes "Update_Results e r msg m = Some (Done out)"
  shows "timeLimit (next_model out) = timeLimit m \<and>
         (state (next_model out) = state m \<or>
          state (next_model out) = stateMenu \<and> answers (next_model out) = [] \<and>
          usedQuestions (next_model out) = {})"
  using assms
  by (auto simp: Update_Results_def ret_def Let_def split: Msg.splits if_splits)

text \<open>
  In every reachable state the phase is one of the four, the time limit is 0 or one of the
  four durations, and outside an episode (Menu, TimeSelect) the history and the used set
  are empty.
\<close>

lemma reachable_invariant:
  assumes "reachable m"
  shows "state m \<in> {stateMenu, stateTimeSelect, stateRunning, stateResults} \<and>
         timeLimit m \<in> {0, 30, 60, 90, 120} \<and>
         (state m = stateMenu \<or> state m = stateTimeSelect \<longrightarrow> answers m = [] \<and> usedQuestions m = {})"
  using assms
proof (induction rule: reachable.induct)
  case reachable_init
  show ?case by (simp add: initialModel_def)
next
  case (reachable_step m e r msg out)
  from reachable_step.IH consider "state m = stateMenu" | "state m = stateTimeSelect"
    | "state m = stateRunning" | "state m = stateResults" by auto
  then show ?case
  proof cases
    case 1
    with reachable_step.hyps(2) have "Update_Menu e r msg m = Some (Done out)" by (simp add: Update_def)
    from Update_Menu_step[OF this] reachable_step.IH 1 show ?thesis by auto
  next
    case 2
    with reachable_step.hyps(2) have "Update_TimeSelect e r msg m = Some (Done out)" by (simp add: Update_def)
    from Update_TimeSelect_step[OF this] reachable_step.IH 2 show ?thesis by auto
  next
    case 3
    with reachable_step.hyps(2) have "Update_Running e r msg m = Some (Done out)" by (simp add: Update_def)
    from Update_Running_step[OF this] reachable_step.IH 3 show ?thesis by auto
  next
    case 4
    with reachable_step.hyps(2) have "Update_Results e r msg m = Some (Done out)" by (simp add: Update_def)
    from Update_Results_step[OF this] reachable_step.IH 4 show ?thesis by auto
  qed
qed

text \<open>So the limit plus one second is a \<open>Duration\<close> in every reachable state.\<close>

lemma reachable_limit_representable:
  assumes "reachable m"
  shows "limit_duration m + Second \<le> 9223372036854775807"
proof -
  from reachable_invariant[OF assms] have "timeLimit m \<in> {0, 30, 60, 90, 120}" by blast
  then show ?thesis by (auto simp: limit_duration_def Second_def wrap64_def)
qed

lemma generateQuestion_empty:
  "\<exists>q r'. generateQuestion d {} r = Some (q, {UniqueID q}, r')"
  by (subst generateQuestion.simps) (auto simp: mkQuestion_def split: prod.splits)

lemma reachable_at_TimeSelect: "reachable at_TimeSelect"
  using reachable_step[OF reachable_init run_Menu_enter] by simp

section \<open>The cells of the bar\<close>

lemma bar_filled_range:
  assumes "0 \<le> width"
  shows "0 \<le> bar_filled fo secondsLeft totalTime width adjust \<and>
         bar_filled fo secondsLeft totalTime width adjust \<le> width"
  using assms by (simp add: bar_filled_def Let_def)

declare bar_loop.simps [simp del]

lemma bar_loop_length:
  "length (bar_loop i width filled barColor fuseChar bar) = length bar + nat (width - i)"
proof (induction i width filled barColor fuseChar bar rule: bar_loop.induct)
  case (1 i width filled barColor fuseChar bar)
  show ?case
  proof (cases "i < width")
    case True
    with 1 show ?thesis by (subst bar_loop.simps) simp
  next
    case False
    then show ?thesis by (subst bar_loop.simps) simp
  qed
qed

lemma bar_loop_filled:
  "length (filter (\<lambda>p. p \<noteq> Plain '' '') (bar_loop i width filled barColor fuseChar bar)) =
     length (filter (\<lambda>p. p \<noteq> Plain '' '') bar) + nat (min width filled - i)"
proof (induction i width filled barColor fuseChar bar rule: bar_loop.induct)
  case (1 i width filled barColor fuseChar bar)
  show ?case
  proof (cases "i < width")
    case True
    with 1 show ?thesis by (subst bar_loop.simps) auto
  next
    case False
    then show ?thesis by (subst bar_loop.simps) simp
  qed
qed

lemma bar_filled_example: "bar_filled exact_ops 7 10 30 1 = 22"
  by (simp add: bar_filled_def bar_percent_def exact_ops_def Let_def wrap64_def)

section \<open>Claims on the session\<close>

text \<open>
  C1. While Running, the Enter handler reads the text of the input after the input has
  seen the key. When that text does not scan as an integer, the call returns the model
  with nothing changed but the text input (as its own \<open>Update\<close> left it), prints nothing
  and leaves the answer history as it was. When it scans as \<open>n\<close>, exactly one record is
  appended to the history: the current question, \<open>Correct\<close> true iff \<open>n\<close> is the
  question's answer, and the text as typed.
\<close>

theorem enter_records_parsed_input_only:
  assumes "state m = stateRunning" and "keyString k = ''enter''"
    and "textinput_Update e (KeyMsg k) (textInput m) = (ti, c)"
  shows "(Sscanf_d e (Value ti) = None \<longrightarrow>
            Update e r (KeyMsg k) m =
              Some (Done \<lparr>next_model = m\<lparr>textInput := ti\<rparr>, cmd = Batch [c], rand = r, printed = []\<rparr>) \<and>
            answers (m\<lparr>textInput := ti\<rparr>) = answers m) \<and>
         (\<forall>n. Sscanf_d e (Value ti) = Some n \<longrightarrow>
            (\<exists>out. Update e r (KeyMsg k) m = Some (Done out) \<and>
               answers (next_model out) = answers m @
                 [\<lparr>Question = currentQ m, Correct = (n = Answer (currentQ m)),
                   Duration = Since e (questionStart m), UserInput = Value ti\<rparr>]))"
  using assms(3) by (simp add: Update_Running_enter[OF assms(1,2)] ret_def score_answers)

theorem enter_records_parsed_input_only_witness:
  "Update plain_env (sconst 0) (KeyMsg key_enter) (typed ''abc'' at_Running) =
     Some (Done \<lparr>next_model = typed ''abc'' at_Running, cmd = Batch [nil_cmd], rand = sconst 0,
                  printed = []\<rparr>) \<and>
   answers (typed ''abc'' at_Running) = [] \<and>
   (\<exists>out. Update plain_env (sconst 0) (KeyMsg key_enter) (typed ''7'' at_Running) = Some (Done out) \<and>
      answers (next_model out) =
        [\<lparr>Question = \<lparr>Text = ''9 - 2 = ?'', Answer = 7, OpType = ''subtraction'',
                        UniqueID = ''1st Grade|12''\<rparr>,
          Correct = True, Duration = 0, UserInput = ''7''\<rparr>])"
proof -
  have a: "state (typed ''abc'' at_Running) = stateRunning" "state (typed ''7'' at_Running) = stateRunning"
    by (simp_all add: run_eval)
  have k: "keyString key_enter = ''enter''" by (simp add: key_enter_def)
  have t1: "textinput_Update plain_env (KeyMsg key_enter) (textInput (typed ''abc'' at_Running)) =
      (textInput (typed ''abc'' at_Running), nil_cmd)"
    by (simp add: run_eval)
  have t2: "textinput_Update plain_env (KeyMsg key_enter) (textInput (typed ''7'' at_Running)) =
      (textInput (typed ''7'' at_Running), nil_cmd)"
    by (simp add: run_eval)
  have v: "Value (textInput (typed ''abc'' at_Running)) = ''abc''" "Value (textInput (typed ''7'' at_Running)) = ''7''"
    "Sscanf_d plain_env = scan_int"
    by (simp_all add: run_eval)
  have r: "answers (typed ''7'' at_Running) = []" "currentQ (typed ''7'' at_Running) =
      \<lparr>Text = ''9 - 2 = ?'', Answer = 7, OpType = ''subtraction'', UniqueID = ''1st Grade|12''\<rparr>"
    "Since plain_env (questionStart (typed ''7'' at_Running)) = 0"
    "answers (typed ''abc'' at_Running) = []"
    "(typed ''abc'' at_Running)\<lparr>textInput := textInput (typed ''abc'' at_Running)\<rparr> = typed ''abc'' at_Running"
    by (simp_all add: run_eval)
  from enter_records_parsed_input_only[OF a(1) k t1, of "sconst 0"]
       enter_records_parsed_input_only[OF a(2) k t2, of "sconst 0"]
  show ?thesis by (simp add: v r scan_7 scan_abc)
qed

text \<open>
  C2. In a state with \<open>1s \<le> timeRemaining \<le> limit\<close>, where \<open>limit\<close> is
  \<open>time.Duration(timeLimit) * time.Second\<close>, scoring an answer (one second added and
  clamped to the limit when correct, one second taken and clamped to one second when
  incorrect) leaves \<open>1s \<le> timeRemaining \<le> limit\<close>. The limit plus one second has to be
  a 64-bit \<open>Duration\<close>, which holds for the limits the program sets (30, 60, 90 and 120
  seconds; \<open>reachable_limit_representable\<close>).
\<close>

theorem scored_time_within_budget:
  assumes "state m = stateRunning" and "keyString k = ''enter''"
    and "textinput_Update e (KeyMsg k) (textInput m) = (ti, c)"
    and "Sscanf_d e (Value ti) = Some n"
    and "Second \<le> timeRemaining m" and "timeRemaining m \<le> limit_duration m"
    and "limit_duration m + Second \<le> 9223372036854775807"
  shows "\<exists>out. Update e r (KeyMsg k) m = Some (Done out) \<and>
           Second \<le> timeRemaining (next_model out) \<and>
           timeRemaining (next_model out) \<le> limit_duration (next_model out)"
proof -
  let ?m = "m\<lparr>textInput := ti\<rparr>"
  have "Second \<le> timeRemaining ?m" "timeRemaining ?m \<le> limit_duration ?m"
    "limit_duration ?m + Second \<le> 9223372036854775807"
    using assms(5-7) by (simp_all add: limit_duration_def)
  from score_in_budget[OF this, of e "Value ti" n] show ?thesis
    using assms(3,4) by (simp add: Update_Running_enter[OF assms(1,2)] ret_def)
qed

theorem scored_time_within_budget_witness:
  "Second \<le> timeRemaining (typed ''5'' at_Running) \<and>
   timeRemaining (typed ''5'' at_Running) \<le> limit_duration (typed ''5'' at_Running) \<and>
   limit_duration (typed ''5'' at_Running) + Second \<le> 9223372036854775807 \<and>
   Sscanf_d plain_env ''5'' = Some 5 \<and>
   (\<exists>out. Update plain_env (sconst 0) (KeyMsg key_enter) (typed ''5'' at_Running) = Some (Done out) \<and>
      Second \<le> timeRemaining (next_model out) \<and>
      timeRemaining (next_model out) \<le> limit_duration (next_model out))"
proof -
  have a: "state (typed ''5'' at_Running) = stateRunning" by (simp add: run_eval)
  have k: "keyString key_enter = ''enter''" by (simp add: key_enter_def)
  have t: "textinput_Update plain_env (KeyMsg key_enter) (textInput (typed ''5'' at_Running)) =
      (textInput (typed ''5'' at_Running), nil_cmd)"
    by (simp add: run_eval)
  have p: "Sscanf_d plain_env (Value (textInput (typed ''5'' at_Running))) = Some 5"
    by (simp add: run_eval scan_5)
  have p': "Sscanf_d plain_env ''5'' = Some 5" by (simp add: plain_env_def scan_5)
  have b: "Second \<le> timeRemaining (typed ''5'' at_Running)"
    "timeRemaining (typed ''5'' at_Running) \<le> limit_duration (typed ''5'' at_Running)"
    "limit_duration (typed ''5'' at_Running) + Second \<le> 9223372036854775807"
    by (simp_all add: run_eval Second_def wrap64_def)
  from scored_time_within_budget[OF a k t p b, of "sconst 0"] b p' show ?thesis by blast
qed

text \<open>
  C5, as stated, fails: with ten seconds or less remaining, a pulse event also sets
  \<open>flashFadeSteps\<close> to 1. Here it was 0 and the remaining time is five seconds.
\<close>

theorem pulse_sets_fade_steps:
  "state (at_Running\<lparr>timeRemaining := 5 * Second\<rparr>) = stateRunning \<and>
   timeRemaining (at_Running\<lparr>timeRemaining := 5 * Second\<rparr>) \<le> 10 * Second \<and>
   flashFadeSteps (at_Running\<lparr>timeRemaining := 5 * Second\<rparr>) = 0 \<and>
   Update plain_env (sconst 0) pulseTickMsg (at_Running\<lparr>timeRemaining := 5 * Second\<rparr>) =
     Some (Done \<lparr>next_model = at_Running\<lparr>timeRemaining := 5 * Second, flashFadeSteps := 1,
                                flashColorOverride := ''brightRed''\<rparr>,
                  cmd = pulseTick, rand = sconst 0, printed = []\<rparr>) \<and>
   flashFadeSteps (at_Running\<lparr>timeRemaining := 5 * Second, flashFadeSteps := 1,
                                flashColorOverride := ''brightRed''\<rparr>) = 1"
  by (simp add: run_eval Second_def)

text \<open>
  C5, amended. On a pulse event while Running, with more than ten seconds remaining the
  model is returned unchanged; with ten seconds or less, \<open>flashFadeSteps\<close> is set to 1 and
  \<open>flashColorOverride\<close> becomes \<open>brightRed\<close> when it was empty and empty otherwise, every
  other field unchanged. In both cases the command is the next pulse and nothing is
  printed.
\<close>

theorem pulse_effect:
  assumes "state m = stateRunning"
  shows "Update e r pulseTickMsg m =
     Some (Done \<lparr>next_model =
                    (if timeRemaining m \<le> 10 * Second then
                       m\<lparr>flashFadeSteps := 1,
                         flashColorOverride := (if flashColorOverride m = [] then ''brightRed'' else [])\<rparr>
                     else m),
                  cmd = pulseTick, rand = r, printed = []\<rparr>)"
  using assms by (simp add: Update_def Update_Running_def ret_def Let_def)

theorem pulse_effect_witness:
  "state (at_Running\<lparr>timeRemaining := 5 * Second, flashColorOverride := ''brightRed''\<rparr>) = stateRunning \<and>
   Update plain_env (sconst 0) pulseTickMsg
       (at_Running\<lparr>timeRemaining := 5 * Second, flashColorOverride := ''brightRed''\<rparr>) =
     Some (Done \<lparr>next_model = at_Running\<lparr>timeRemaining := 5 * Second, flashColorOverride := [],
                                flashFadeSteps := 1\<rparr>,
                  cmd = pulseTick, rand = sconst 0, printed = []\<rparr>) \<and>
   Update plain_env (sconst 0) pulseTickMsg at_Running =
     Some (Done \<lparr>next_model = at_Running, cmd = pulseTick, rand = sconst 0, printed = []\<rparr>)"
proof -
  have a: "state (at_Running\<lparr>timeRemaining := 5 * Second, flashColorOverride := ''brightRed''\<rparr>) = stateRunning"
    "state at_Running = stateRunning"
    by (simp_all add: run_eval)
  have b: "timeRemaining at_Running = 30 * Second" by (simp add: run_eval)
  from pulse_effect[OF a(1), of plain_env "sconst 0"] pulse_effect[OF a(2), of plain_env "sconst 0"] a
  show ?thesis by (simp add: b Second_def)
qed

text \<open>
  C6. In every reachable state in TimeSelect, confirming one of the four durations starts
  the episode: the phase is Running, \<open>timeLimit\<close> and \<open>timeRemaining\<close> are the chosen
  duration (30, 60, 90 or 120 seconds), the answer history is empty and the used set holds
  the id of the first question and nothing else. The handler itself clears neither the
  history nor the set: they are empty in every reachable state outside an episode
  (\<open>reachable_invariant\<close>), and the call returns because the first id drawn is fresh.
\<close>

theorem confirm_duration_starts_episode:
  assumes "reachable m" and "state m = stateTimeSelect" and "keyString k = ''enter''"
    and "list_Update e (KeyMsg k) (timeList m) = (l', c)"
    and "SelectedItem l' = Some sel"
    and "(name sel, secs) \<in> {(''30s'', 30), (''60s'', 60), (''90s'', 90), (''2m'', 120)}"
  shows "\<exists>out. Update e r (KeyMsg k) m = Some (Done out) \<and>
           state (next_model out) = stateRunning \<and>
           timeLimit (next_model out) = secs \<and>
           timeRemaining (next_model out) = secs * Second \<and>
           answers (next_model out) = [] \<and>
           usedQuestions (next_model out) = {UniqueID (currentQ (next_model out))} \<and>
           cmd out = Batch [tick, fuseTick, pulseTick]"
proof -
  from reachable_invariant[OF assms(1)] assms(2)
  have clean: "answers m = []" "usedQuestions m = {}" by auto
  let ?m1 = "set_timeLimit (name sel) (m\<lparr>timeList := l'\<rparr>)"
  have tl: "timeLimit ?m1 = secs" using assms(6) by (auto simp: set_timeLimit_def)
  have lim: "wrap64 (secs * Second) = secs * Second"
    using assms(6) by (auto simp: Second_def wrap64_def)
  have fr: "answers ?m1 = []" "usedQuestions ?m1 = {}"
    using clean by (simp_all add: set_timeLimit_frame)
  obtain q r' where g: "generateQuestion (difficulty ?m1) {} r = Some (q, {UniqueID q}, r')"
    using generateQuestion_empty by blast
  have "Update e r (KeyMsg k) m = Update_TimeSelect e r (KeyMsg k) m"
    using assms(2) by (simp add: Update_def)
  also have "\<dots> = ret (?m1\<lparr>currentQ := q, usedQuestions := {UniqueID q}, totalStart := Now e,
        questionStart := Now e, timeRemaining := secs * Second, state := stateRunning,
        startTime := Now e\<rparr>) (Batch [tick, fuseTick, pulseTick]) r'"
    using assms(3,4,5) g fr tl lim
    by (simp add: Update_TimeSelect_def Let_def limit_duration_def)
  finally show ?thesis using tl fr by (simp add: ret_def)
qed

theorem confirm_duration_starts_episode_witness:
  "reachable at_TimeSelect \<and> state at_TimeSelect = stateTimeSelect \<and>
   SelectedItem (timeList at_TimeSelect) = Some \<lparr>name = ''30s'', desc = ''Brain Storm''\<rparr> \<and>
   (\<exists>out. Update plain_env (2 ## 9 ## 3 ## 12 ## sconst 0) (KeyMsg key_enter) at_TimeSelect = Some (Done out) \<and>
      state (next_model out) = stateRunning \<and> timeLimit (next_model out) = 30 \<and>
      timeRemaining (next_model out) = 30 * Second \<and> answers (next_model out) = [] \<and>
      usedQuestions (next_model out) = {UniqueID (currentQ (next_model out))})"
proof -
  have a: "state at_TimeSelect = stateTimeSelect" by (simp add: run_eval)
  have k: "keyString key_enter = ''enter''" by (simp add: key_enter_def)
  have l: "list_Update plain_env (KeyMsg key_enter) (timeList at_TimeSelect) = (timeList at_TimeSelect, nil_cmd)"
    by (simp add: plain_env_sel)
  have s: "SelectedItem (timeList at_TimeSelect) = Some \<lparr>name = ''30s'', desc = ''Brain Storm''\<rparr>"
    by (simp add: run_eval)
  have n: "(name \<lparr>name = ''30s'', desc = ''Brain Storm''\<rparr>, 30) \<in>
      {(''30s'', 30), (''60s'', 60), (''90s'', 90), (''2m'', 120::int)}" by simp
  from confirm_duration_starts_episode[OF reachable_at_TimeSelect a k l s n, of "2 ## 9 ## 3 ## 12 ## sconst 0"]
    reachable_at_TimeSelect a s
  show ?thesis by auto
qed

text \<open>
  C9. For a positive remaining time and a width that is not negative, the number of filled
  columns lies in \<open>[0, width]\<close>, whatever the floating-point operations return, whatever
  the total time, the adjustment and the colour override; the rendered bar is the bomb and
  an opening bracket, \<open>width\<close> cells and a closing bracket, and the cells that are not a
  space are as many as the filled columns.
\<close>

theorem bar_has_width_cells:
  assumes "0 < secondsLeft" and "0 \<le> width"
  shows "0 \<le> bar_filled fo secondsLeft totalTime width adjust \<and>
         bar_filled fo secondsLeft totalTime width adjust \<le> width \<and>
         (\<exists>bar. renderCountdownBar fo secondsLeft totalTime width adjust override fuseChar =
                   [Plain (glyph_bomb @ ''['')] @ bar @ [Plain '']''] \<and>
                 length bar = nat width \<and>
                 length (filter (\<lambda>p. p \<noteq> Plain '' '') bar) =
                   nat (bar_filled fo secondsLeft totalTime width adjust))"
proof -
  let ?f = "bar_filled fo secondsLeft totalTime width adjust"
  let ?bar = "bar_loop 0 width ?f
      (bar_color fo (bar_percent fo secondsLeft totalTime) override) fuseChar []"
  from bar_filled_range[OF assms(2)] have f: "0 \<le> ?f" "?f \<le> width" by blast+
  have "renderCountdownBar fo secondsLeft totalTime width adjust override fuseChar =
      [Plain (glyph_bomb @ ''['')] @ ?bar @ [Plain '']'']"
    using assms(1) by (simp add: renderCountdownBar_def Let_def)
  moreover have "length ?bar = nat width" by (simp add: bar_loop_length)
  moreover have "length (filter (\<lambda>p. p \<noteq> Plain '' '') ?bar) = nat ?f"
    using f by (simp add: bar_loop_filled min_def)
  ultimately show ?thesis using f by blast
qed

theorem bar_has_width_cells_witness:
  "bar_filled exact_ops 7 10 30 1 = 22 \<and>
   (\<exists>bar. renderCountdownBar exact_ops 7 10 30 1 ''brightGreen'' ''*'' =
             [Plain (glyph_bomb @ ''['')] @ bar @ [Plain '']''] \<and>
           length bar = 30 \<and> length (filter (\<lambda>p. p \<noteq> Plain '' '') bar) = 22)"
proof -
  have h: "(0::int) < 7" "(0::int) \<le> 30" by simp_all
  from bar_has_width_cells[OF h, of exact_ops 10 1 "''brightGreen''" "''*''"]
  show ?thesis by (simp add: bar_filled_example)
qed

text \<open>
  C10. While Running with the flash active (\<open>flashActive\<close> and \<open>suspendTick\<close> set, the
  text input blurred and not yet reset), an Enter key on a text that still scans as an
  integer appends one more record for the same current question, which stays, and applies
  the time adjustment again: the handler tests neither \<open>flashActive\<close> nor \<open>suspendTick\<close>.
\<close>

theorem enter_during_flash_records_again:
  assumes "state m = stateRunning" and "flashActive m" and "suspendTick m"
    and "\<not> focus (textInput m)" and "keyString k = ''enter''"
    and "textinput_Update e (KeyMsg k) (textInput m) = (ti, c)"
    and "Sscanf_d e (Value ti) = Some n"
  shows "\<exists>out. Update e r (KeyMsg k) m = Some (Done out) \<and>
           answers (next_model out) = answers m @
             [\<lparr>Question = currentQ m, Correct = (n = Answer (currentQ m)),
               Duration = Since e (questionStart m), UserInput = Value ti\<rparr>] \<and>
           currentQ (next_model out) = currentQ m \<and>
           timeRemaining (next_model out) =
             (if n = Answer (currentQ m) then
                (if wrap64 (timeRemaining m + Second) > limit_duration m then limit_duration m
                 else wrap64 (timeRemaining m + Second))
              else
                (if wrap64 (timeRemaining m - Second) < Second then Second
                 else wrap64 (timeRemaining m - Second)))"
  using assms(6,7)
  by (simp add: Update_Running_enter[OF assms(1,5)] ret_def score_answers score_frame
      score_timeRemaining limit_duration_def)

theorem enter_during_flash_records_again_witness:
  "Update plain_env (sconst 0) (KeyMsg key_enter) (typed ''5'' at_Running) =
     Some (Done \<lparr>next_model = score plain_env ''5'' 5 (typed ''5'' at_Running),
                  cmd = Batch [flashTimeout, flashFadeTick], rand = sconst 0, printed = []\<rparr>) \<and>
   flashActive (score plain_env ''5'' 5 (typed ''5'' at_Running)) \<and>
   suspendTick (score plain_env ''5'' 5 (typed ''5'' at_Running)) \<and>
   \<not> focus (textInput (score plain_env ''5'' 5 (typed ''5'' at_Running))) \<and>
   (\<exists>out. Update plain_env (sconst 0) (KeyMsg key_enter) (score plain_env ''5'' 5 (typed ''5'' at_Running)) =
        Some (Done out) \<and>
      answers (next_model out) =
        [\<lparr>Question = \<lparr>Text = ''9 - 2 = ?'', Answer = 7, OpType = ''subtraction'',
                        UniqueID = ''1st Grade|12''\<rparr>,
          Correct = False, Duration = 0, UserInput = ''5''\<rparr>,
         \<lparr>Question = \<lparr>Text = ''9 - 2 = ?'', Answer = 7, OpType = ''subtraction'',
                        UniqueID = ''1st Grade|12''\<rparr>,
          Correct = False, Duration = 0, UserInput = ''5''\<rparr>] \<and>
      timeRemaining (next_model out) = 28 * Second)"
proof -
  let ?m = "score plain_env ''5'' 5 (typed ''5'' at_Running)"
  have a: "state ?m = stateRunning" "flashActive ?m" "suspendTick ?m" "\<not> focus (textInput ?m)"
    by (simp_all add: after_submit_5 score_frame(5,6))
  have k: "keyString key_enter = ''enter''" by (simp add: key_enter_def)
  have t: "textinput_Update plain_env (KeyMsg key_enter) (textInput ?m) = (textInput ?m, nil_cmd)"
    by (simp add: after_submit_5 plain_env_sel typing_def key_enter_def)
  have p: "Sscanf_d plain_env (Value (textInput ?m)) = Some 5"
    by (simp add: after_submit_5 plain_env_sel scan_5)
  have s: "Since plain_env 0 = 0" by (simp add: plain_env_sel)
  from enter_during_flash_records_again[OF a k t p, of "sconst 0"] a run_submit_5[of "sconst 0"]
  show ?thesis
    by (auto simp add: after_submit_5 s Second_def wrap64_def)
qed

end
